theory Spec2Isabelle
  imports Main "HOL-Library.Word"
begin

section \<open>Python values used by \<^verbatim>\<open>ci/fireci/fireci/gradle.py\<close>\<close>

text \<open>
  A Python \<^verbatim>\<open>str\<close> is a sequence of Unicode code points and a \<^verbatim>\<open>bytes\<close> object a
  sequence of octets. The two are kept apart, because the module turns one into the other
  with \<^verbatim>\<open>line.decode()\<close>, which can raise.
\<close>

type_synonym str = "nat list"
type_synonym bytes = "8 word list"

text \<open>An ASCII literal of the source, as a \<^verbatim>\<open>str\<close>.\<close>

definition lit :: "string \<Rightarrow> str" where
  "lit s = map of_char s"

subsection \<open>\<^verbatim>\<open>str.rstrip()\<close>\<close>

text \<open>
  Without an argument, \<^verbatim>\<open>rstrip\<close> removes the trailing characters for which
  \<^verbatim>\<open>str.isspace\<close> holds. CPython decides that with a fixed table of code points:
  U+0009..U+000D, U+001C..U+0020, U+0085, U+00A0, U+1680, U+2000..U+200A, U+2028, U+2029,
  U+202F, U+205F and U+3000.
\<close>

definition isspace :: "nat \<Rightarrow> bool" where
  "isspace c \<longleftrightarrow>
     (0x09 \<le> c \<and> c \<le> 0x0D) \<or> (0x1C \<le> c \<and> c \<le> 0x20) \<or> c = 0x85 \<or> c = 0xA0 \<or>
     c = 0x1680 \<or> (0x2000 \<le> c \<and> c \<le> 0x200A) \<or> c = 0x2028 \<or> c = 0x2029 \<or>
     c = 0x202F \<or> c = 0x205F \<or> c = 0x3000"

definition rstrip :: "str \<Rightarrow> str" where
  "rstrip s = rev (dropWhile isspace (rev s))"

subsection \<open>\<^verbatim>\<open>bytes.decode()\<close>\<close>

text \<open>
  The default codec is UTF-8 and the default error handler is \<^verbatim>\<open>strict\<close>: a byte
  sequence that is not well-formed UTF-8 (a stray continuation byte, a truncated or
  overlong sequence, an encoded surrogate, a value above U+10FFFF) raises
  \<^verbatim>\<open>UnicodeDecodeError\<close>, here \<open>None\<close>.
\<close>

definition cont :: "8 word \<Rightarrow> bool" where
  "cont b \<longleftrightarrow> 0x80 \<le> b \<and> b \<le> 0xBF"

definition low6 :: "8 word \<Rightarrow> nat" where
  "low6 b = unat b mod 64"

fun decode :: "bytes \<Rightarrow> str option" where
  "decode [] = Some []"
| "decode (b0 # bs) =
     (if b0 < 0x80 then map_option ((#) (unat b0)) (decode bs)
      else if 0xC2 \<le> b0 \<and> b0 \<le> 0xDF then
        (case bs of
           b1 # r \<Rightarrow>
             if cont b1
             then map_option ((#) (unat b0 mod 32 * 64 + low6 b1)) (decode r)
             else None
         | _ \<Rightarrow> None)
      else if 0xE0 \<le> b0 \<and> b0 \<le> 0xEF then
        (case bs of
           b1 # b2 # r \<Rightarrow>
             if cont b1 \<and> cont b2 \<and> (b0 = 0xE0 \<longrightarrow> 0xA0 \<le> b1) \<and> (b0 = 0xED \<longrightarrow> b1 \<le> 0x9F)
             then map_option ((#) (unat b0 mod 16 * 4096 + low6 b1 * 64 + low6 b2)) (decode r)
             else None
         | _ \<Rightarrow> None)
      else if 0xF0 \<le> b0 \<and> b0 \<le> 0xF4 then
        (case bs of
           b1 # b2 # b3 # r \<Rightarrow>
             if cont b1 \<and> cont b2 \<and> cont b3 \<and> (b0 = 0xF0 \<longrightarrow> 0x90 \<le> b1) \<and>
                (b0 = 0xF4 \<longrightarrow> b1 \<le> 0x8F)
             then map_option
                    ((#) (unat b0 mod 8 * 262144 + low6 b1 * 4096 + low6 b2 * 64 + low6 b3))
                    (decode r)
             else None
         | _ \<Rightarrow> None)
      else None)"

subsection \<open>Iterating over a binary stream\<close>

text \<open>
  \<^verbatim>\<open>for line in f\<close> over a binary file yields the content cut after every
  \<^verbatim>\<open>b'\n'\<close>; each line keeps its newline, and a last line without one is yielded as it is.
\<close>

fun split_lines :: "bytes \<Rightarrow> bytes list" where
  "split_lines [] = []"
| "split_lines (b # bs) =
     (if b = 0x0A then [b] # split_lines bs
      else (case split_lines bs of
              [] \<Rightarrow> [[b]]
            | l # ls \<Rightarrow> (b # l) # ls))"

subsection \<open>\<^verbatim>\<open>str.join\<close> and \<^verbatim>\<open>str.format\<close>\<close>

fun join :: "str \<Rightarrow> str list \<Rightarrow> str" where
  "join sep [] = []"
| "join sep [x] = x"
| "join sep (x # y # ys) = x @ sep @ join sep (y # ys)"

text \<open>
  \<^verbatim>\<open>str.format\<close> with positional arguments that are themselves \<^verbatim>\<open>str\<close>: the template
  is scanned from the left, \<^verbatim>\<open>{{\<close> and \<^verbatim>\<open>}}\<close> stand for one brace, \<^verbatim>\<open>{}\<close> is
  replaced by the next argument (\<^verbatim>\<open>IndexError\<close> when there is none left), a lone
  \<^verbatim>\<open>}\<close> is a \<^verbatim>\<open>ValueError\<close>. Replacement fields with a name, a conversion or a format
  specification are left out of the model (\<open>Unsupported\<close>); gradle.py has none.
\<close>

datatype format_error = IndexError | ValueError | Unsupported

fun format :: "str \<Rightarrow> str list \<Rightarrow> format_error + str" where
  "format [] args = Inr []"
| "format [c] args = (if c = 0x7B \<or> c = 0x7D then Inl ValueError else Inr [c])"
| "format (c # d # cs) args =
     (if c = 0x7B \<and> d = 0x7B then map_sum id ((#) c) (format cs args)
      else if c = 0x7B \<and> d = 0x7D then
        (case args of
           [] \<Rightarrow> Inl IndexError
         | a # as \<Rightarrow> map_sum id ((@) a) (format cs as))
      else if c = 0x7B then Inl Unsupported
      else if c = 0x7D \<and> d = 0x7D then map_sum id ((#) c) (format cs args)
      else if c = 0x7D then Inl ValueError
      else map_sum id ((#) c) (format (d # cs) args))"


section \<open>The process environment, the logger and child processes\<close>

text \<open>
  \<^verbatim>\<open>os.environ\<close> and the dictionary made by \<^verbatim>\<open>dict(os.environ)\<close> are two mutable objects.
  They live in a store, so that writing through one reference is visible through every
  alias of it and through nothing else.
\<close>

type_synonym env = "str \<rightharpoonup> str"

datatype dict_ref = OsEnviron | Obj nat

text \<open>How a standard handle of the child is set up: \<^verbatim>\<open>None\<close>, \<^verbatim>\<open>subprocess.PIPE\<close>,
  \<^verbatim>\<open>subprocess.STDOUT\<close>.\<close>

datatype redirect = Inherit | PIPE | STDOUT

text \<open>The keyword arguments \<^verbatim>\<open>subprocess.Popen\<close> is called with.\<close>

record popen_call =
  pc_args :: "str list"
  pc_cwd :: "str option"
  pc_env :: env
  pc_stdout :: redirect
  pc_stderr :: redirect

text \<open>
  \<^verbatim>\<open>Popen\<close> changes the child's directory to \<^verbatim>\<open>cwd\<close> before the \<^verbatim>\<open>exec\<close> when
  \<^verbatim>\<open>cwd\<close> is not \<^verbatim>\<open>None\<close>, and leaves the child in the directory of the parent otherwise.
\<close>

datatype directory = ParentCwd str | ChdirTo str

record launch =
  l_call :: popen_call
  l_dir :: directory

text \<open>
  What a launched child does, as far as the parent can see: the bytes it writes to the
  pipe (standard output and standard error together) before closing it, and the status
  \<^verbatim>\<open>wait\<close> collects (negative when a signal killed it). Only children that end are
  described. The operating system is a parameter: it answers a launch with an
  \<^verbatim>\<open>errno\<close> (no such file, permission denied, ...) or with a child.
\<close>

record child =
  c_output :: bytes
  c_status :: int

type_synonym system = "launch \<Rightarrow> nat + child"

text \<open>One call \<^verbatim>\<open>_logger.info(msg, *args)\<close>.\<close>

type_synonym log_call = "str \<times> str list"

record world =
  os_environ :: env
  objs :: "nat \<Rightarrow> env"
  next_obj :: nat
  cwd :: str
  log :: "log_call list"
  launches :: "launch list"

definition deref :: "dict_ref \<Rightarrow> world \<Rightarrow> env" where
  "deref r w = (case r of OsEnviron \<Rightarrow> os_environ w | Obj i \<Rightarrow> objs w i)"

text \<open>\<^verbatim>\<open>dict(d)\<close>: a new dictionary with the items of \<^verbatim>\<open>d\<close>.\<close>

definition dict_copy :: "dict_ref \<Rightarrow> world \<Rightarrow> dict_ref \<times> world" where
  "dict_copy r w =
     (Obj (next_obj w),
      w\<lparr>objs := (objs w)(next_obj w := deref r w), next_obj := Suc (next_obj w)\<rparr>)"

text \<open>\<^verbatim>\<open>d[k] = v\<close>.\<close>

definition setitem :: "dict_ref \<Rightarrow> str \<Rightarrow> str \<Rightarrow> world \<Rightarrow> world" where
  "setitem r k v w =
     (case r of
        OsEnviron \<Rightarrow> w\<lparr>os_environ := (os_environ w)(k \<mapsto> v)\<rparr>
      | Obj i \<Rightarrow> w\<lparr>objs := (objs w)(i := (objs w i)(k \<mapsto> v))\<rparr>)"

definition logger_info :: "str \<Rightarrow> str list \<Rightarrow> world \<Rightarrow> world" where
  "logger_info msg args w = w\<lparr>log := log w @ [(msg, args)]\<rparr>"

subsection \<open>File objects and \<^verbatim>\<open>Popen\<close> objects\<close>

text \<open>The reading end of the pipe: the bytes not read yet and whether it was closed.\<close>

record file_object =
  unread :: bytes
  closed :: bool

text \<open>
  A \<^verbatim>\<open>Popen\<close> object made with \<^verbatim>\<open>stdout=PIPE, stderr=STDOUT\<close>: \<^verbatim>\<open>stdout\<close> is the
  file object of the pipe, \<^verbatim>\<open>stderr\<close> is \<^verbatim>\<open>None\<close>, and \<^verbatim>\<open>returncode\<close> is \<^verbatim>\<open>None\<close>
  until the child has been waited for. \<open>exit_status\<close> is not an attribute: it is the
  status the child will end with.
\<close>

record popen =
  args :: "str list"
  returncode :: "int option"
  stdout :: file_object
  stderr :: "file_object option"
  exit_status :: int

datatype error =
    OSError nat
  | UnicodeDecodeError bytes
  | CalledProcessError "int option" "str list" file_object "file_object option"

record completed_process =
  cp_args :: "str list"
  cp_returncode :: "int option"
  cp_stdout :: file_object
  cp_stderr :: "file_object option"

definition Popen ::
  "system \<Rightarrow> str list \<Rightarrow> str option \<Rightarrow> dict_ref \<Rightarrow> world \<Rightarrow> (nat + popen) \<times> world" where
  "Popen sys command cwd_arg env_ref w =
     (let l = \<lparr>l_call = \<lparr>pc_args = command, pc_cwd = cwd_arg, pc_env = deref env_ref w,
                           pc_stdout = PIPE, pc_stderr = STDOUT\<rparr>,
                l_dir = (case cwd_arg of None \<Rightarrow> ParentCwd (cwd w) | Some d \<Rightarrow> ChdirTo d)\<rparr>;
          w' = w\<lparr>launches := launches w @ [l]\<rparr>
      in case sys l of
           Inl errno \<Rightarrow> (Inl errno, w')
         | Inr c \<Rightarrow>
             (Inr \<lparr>args = command, returncode = None,
                   stdout = \<lparr>unread = c_output c, closed = False\<rparr>, stderr = None,
                   exit_status = c_status c\<rparr>, w'))"

text \<open>\<^verbatim>\<open>f.readline()\<close>: the bytes up to and including the next newline, or all that is left.\<close>

fun break_line :: "bytes \<Rightarrow> bytes \<times> bytes" where
  "break_line [] = ([], [])"
| "break_line (b # bs) =
     (if b = 0x0A then ([b], bs)
      else (case break_line bs of (l, r) \<Rightarrow> (b # l, r)))"

definition readline :: "file_object \<Rightarrow> bytes \<times> file_object" where
  "readline f = (case break_line (unread f) of (l, r) \<Rightarrow> (l, f\<lparr>unread := r\<rparr>))"

text \<open>
  \<^verbatim>\<open>p.communicate()\<close> with one pipe and no timeout: read what is left of standard output,
  close it, wait for the child. The pair it returns is dropped by the caller.
\<close>

definition communicate :: "popen \<Rightarrow> (bytes option \<times> bytes option) \<times> popen" where
  "communicate p =
     ((Some (unread (stdout p)), None),
      p\<lparr>stdout := (stdout p)\<lparr>unread := [], closed := True\<rparr>,
        returncode := Some (exit_status p)\<rparr>)"

text \<open>The truth value of \<^verbatim>\<open>p.returncode\<close> in a condition: \<^verbatim>\<open>None\<close> and \<^verbatim>\<open>0\<close> are false.\<close>

definition truthy :: "int option \<Rightarrow> bool" where
  "truthy rc = (case rc of None \<Rightarrow> False | Some n \<Rightarrow> n \<noteq> 0)"


section \<open>gradle.py\<close>

definition ADB_INSTALL_TIMEOUT :: str where
  "ADB_INSTALL_TIMEOUT = lit ''5''"

definition P :: "str \<Rightarrow> str \<Rightarrow> format_error + str" where
  "P name val = format (lit ''-P{}={}'') [name, val]"

text \<open>
  The loop \<^verbatim>\<open>for line in p.stdout: _logger.info(line.decode().rstrip())\<close>. The iterator
  asks the file for one line at a time and stops at the empty one; a line that does not
  decode ends the loop with the exception.
\<close>

function for_lines :: "file_object \<Rightarrow> world \<Rightarrow> (error + unit) \<times> file_object \<times> world" where
  "for_lines f w =
     (case readline f of
        (line, f') \<Rightarrow>
          if line = [] then (Inr (), f', w)
          else (case decode line of
                  None \<Rightarrow> (Inl (UnicodeDecodeError line), f', w)
                | Some s \<Rightarrow> for_lines f' (logger_info (rstrip s) [] w)))"
  by pat_completeness auto
termination
proof (relation "measure (\<lambda>(f, w). length (unread f))")
  show "wf (measure (\<lambda>(f, w). length (unread f)))"
    by simp
next
  fix f :: file_object and w :: world and line f' s
  assume rl: "(line, f') = readline f" and ne: "line \<noteq> []"
    and "decode line = Some s"
  have whole: "l @ r = bs" if "break_line bs = (l, r)" for bs l r
    using that by (induction bs arbitrary: l r) (auto split: if_splits prod.splits)
  obtain l r where br: "break_line (unread f) = (l, r)"
    by (cases "break_line (unread f)")
  with rl have "line = l" "unread f' = r"
    by (simp_all add: readline_def)
  moreover note ne
  moreover from whole [OF br] have "length (unread f) = length l + length r"
    by (metis length_append)
  ultimately have "length (unread f') < length (unread f)"
    using ne by simp
  then show "((f', logger_info (rstrip s) [] w), (f, w)) \<in> measure (\<lambda>(f, w). length (unread f))"
    by simp
qed

text \<open>
  \<^verbatim>\<open>run(*args, gradle_opts='', workdir=None, check=True)\<close>. An exception leaves through
  the \<^verbatim>\<open>with\<close> statement, which closes the pipe and waits for the child; nothing is
  caught. The result is built from the attributes of \<^verbatim>\<open>p\<close> as they are after
  \<^verbatim>\<open>communicate\<close>.
\<close>

definition run ::
  "system \<Rightarrow> str list \<Rightarrow> str \<Rightarrow> str option \<Rightarrow> bool \<Rightarrow> world \<Rightarrow> (error + completed_process) \<times> world"
  where
  "run sys arguments gradle_opts workdir check w0 =
     (let (new_env, w1) = dict_copy OsEnviron w0;
          w2 = (if gradle_opts \<noteq> [] then setitem new_env (lit ''GRADLE_OPTS'') gradle_opts w1
                else w1);
          w3 = setitem new_env (lit ''ADB_INSTALL_TIMEOUT'') ADB_INSTALL_TIMEOUT w2;
          command = [lit ''./gradlew''] @ arguments;
          w4 = logger_info
                 (lit ''Executing gradle command: '' @ [0x22] @ lit ''%s'' @ [0x22] @
                  lit '' in directory: '' @ [0x22] @ lit ''%s'' @ [0x22])
                 [join (lit '' '') command,
                  (case workdir of None \<Rightarrow> lit ''.'' | Some d \<Rightarrow> if d \<noteq> [] then d else lit ''.'')]
                 w3
      in case Popen sys command workdir new_env w4 of
           (Inl errno, w5) \<Rightarrow> (Inl (OSError errno), w5)
         | (Inr p, w5) \<Rightarrow>
             (case for_lines (stdout p) w5 of
                (Inl e, f', w6) \<Rightarrow> (Inl e, w6)
              | (Inr u, f', w6) \<Rightarrow>
                  (let p1 = p\<lparr>stdout := f'\<rparr>;
                       p2 = snd (communicate p1)
                   in if check \<and> truthy (returncode p2)
                      then (Inl (CalledProcessError (returncode p2) (args p2)
                                   (stdout p2) (stderr p2)), w6)
                      else (Inr \<lparr>cp_args = args p2, cp_returncode = returncode p2,
                                  cp_stdout = stdout p2, cp_stderr = stderr p2\<rparr>, w6))))"

section \<open>Notions used to state the results\<close>

text \<open>A line of the child's output that \<^verbatim>\<open>decode\<close> accepts, and what the loop logs for it.\<close>

definition decodable :: "bytes \<Rightarrow> bool" where
  "decodable l \<longleftrightarrow> decode l \<noteq> None"

definition logged_text :: "bytes \<Rightarrow> str" where
  "logged_text l = (case decode l of None \<Rightarrow> [] | Some s \<Rightarrow> rstrip s)"

definition logged :: "bytes list \<Rightarrow> log_call list" where
  "logged ls = map (\<lambda>l. (logged_text l, [])) (takeWhile decodable ls)"

text \<open>The first call of the logger, which announces the command.\<close>

definition command_line_log :: "str list \<Rightarrow> str option \<Rightarrow> log_call" where
  "command_line_log arguments workdir =
     (lit ''Executing gradle command: '' @ [0x22] @ lit ''%s'' @ [0x22] @
      lit '' in directory: '' @ [0x22] @ lit ''%s'' @ [0x22],
      [join (lit '' '') (lit ''./gradlew'' # arguments),
       (case workdir of None \<Rightarrow> lit ''.'' | Some d \<Rightarrow> if d \<noteq> [] then d else lit ''.'')])"

text \<open>
  The environment, the launch and the world just before the loop, written without the
  store: they are what \<open>run\<close> computes (lemma \<open>run_eq\<close>), not part of its model.
\<close>

definition child_env :: "str \<Rightarrow> env \<Rightarrow> env" where
  "child_env gradle_opts e =
     (if gradle_opts \<noteq> [] then e(lit ''GRADLE_OPTS'' \<mapsto> gradle_opts) else e)
       (lit ''ADB_INSTALL_TIMEOUT'' \<mapsto> ADB_INSTALL_TIMEOUT)"

definition run_launch :: "str list \<Rightarrow> str \<Rightarrow> str option \<Rightarrow> world \<Rightarrow> launch" where
  "run_launch arguments gradle_opts workdir w =
     \<lparr>l_call = \<lparr>pc_args = lit ''./gradlew'' # arguments, pc_cwd = workdir,
                pc_env = child_env gradle_opts (os_environ w),
                pc_stdout = PIPE, pc_stderr = STDOUT\<rparr>,
      l_dir = (case workdir of None \<Rightarrow> ParentCwd (cwd w) | Some d \<Rightarrow> ChdirTo d)\<rparr>"

definition before_loop :: "str list \<Rightarrow> str \<Rightarrow> str option \<Rightarrow> world \<Rightarrow> world" where
  "before_loop arguments gradle_opts workdir w =
     w\<lparr>objs := (objs w)(next_obj w := child_env gradle_opts (os_environ w)),
       next_obj := Suc (next_obj w),
       log := log w @ [command_line_log arguments workdir],
       launches := launches w @ [run_launch arguments gradle_opts workdir w]\<rparr>"

text \<open>
  Concrete inputs for the examples: an operating system that launches a given child, one
  that refuses every launch with a given \<^verbatim>\<open>errno\<close>, and a parent process that already
  holds one dictionary besides \<^verbatim>\<open>os.environ\<close>.
\<close>

definition answers :: "child \<Rightarrow> system" where
  "answers c l = Inr c"


definition ex_world :: world where
  "ex_world =
     \<lparr>os_environ = [lit ''HOME'' \<mapsto> lit ''/root'', lit ''GRADLE_OPTS'' \<mapsto> lit ''-Xmx2g''],
      objs = (\<lambda>_. Map.empty)(0 := [lit ''LANG'' \<mapsto> lit ''C'']), next_obj = 1,
      cwd = lit ''/repo'', log = [], launches = []\<rparr>"

text \<open>
  Children for the examples: one that prints \<^verbatim>\<open>"ok \nb"\<close> and exits with 0, one that
  prints \<^verbatim>\<open>"no\n"\<close> and exits with 1, one that prints the single byte \<^verbatim>\<open>0xFF\<close> (not
  UTF-8) and exits with 0, and one that prints nothing and exits with 0.
\<close>

definition ok_child :: child where
  "ok_child = \<lparr>c_output = [0x6F, 0x6B, 0x20, 0x0A, 0x62], c_status = 0\<rparr>"

definition failing_child :: child where
  "failing_child = \<lparr>c_output = [0x6E, 0x6F, 0x0A], c_status = 1\<rparr>"

definition latin1_child :: child where
  "latin1_child = \<lparr>c_output = [0xFF], c_status = 0\<rparr>"

definition quiet_child :: child where
  "quiet_child = \<lparr>c_output = [], c_status = 0\<rparr>"

section \<open>Lines, the loop and \<open>run\<close> as a whole\<close>

lemma break_line_append: "break_line bs = (l, r) \<Longrightarrow> l @ r = bs"
  by (induction bs arbitrary: l r) (auto split: if_splits prod.splits)

lemma break_line_Nil: "break_line bs = ([], r) \<Longrightarrow> bs = []"
  by (cases bs) (auto split: if_splits prod.splits)

lemma split_lines_break:
  "bs \<noteq> [] \<Longrightarrow> split_lines bs = fst (break_line bs) # split_lines (snd (break_line bs))"
proof (induction bs)
  case Nil
  then show ?case by simp
next
  case (Cons b bs)
  show ?case
  proof (cases "b = 0x0A")
    case True
    then show ?thesis by simp
  next
    case False
    show ?thesis
    proof (cases "bs = []")
      case True
      with False show ?thesis by simp
    next
      case ne: False
      from Cons.IH [OF ne] False show ?thesis
        by (simp split: prod.splits)
    qed
  qed
qed

lemma concat_split_lines: "concat (split_lines bs) = bs"
  by (induction bs) (auto split: list.splits)

lemma split_lines_newlines:
  "l \<in> set (split_lines bs) \<Longrightarrow> l \<noteq> [] \<and> 0x0A \<notin> set (butlast l)"
  by (induction bs arbitrary: l) (auto split: if_splits list.splits)

lemma for_lines_world:
  "snd (snd (for_lines f w)) = w\<lparr>log := log w @ logged (split_lines (unread f))\<rparr>"
proof (induction f w rule: for_lines.induct)
  case (1 f w)
  obtain l r where br: "break_line (unread f) = (l, r)"
    by (cases "break_line (unread f)")
  show ?case
  proof (cases "l = []")
    case True
    with br have "unread f = []"
      by (simp add: break_line_Nil)
    with br True show ?thesis
      by (simp add: for_lines.simps [of f w] readline_def logged_def)
  next
    case False
    with br have ne: "unread f \<noteq> []"
      by auto
    from split_lines_break [OF ne] br
    have sl: "split_lines (unread f) = l # split_lines r"
      by simp
    show ?thesis
    proof (cases "decode l")
      case None
      with br False sl show ?thesis
        by (simp add: for_lines.simps [of f w] readline_def logged_def decodable_def)
    next
      case (Some s)
      have rl: "readline f = (l, f\<lparr>unread := r\<rparr>)"
        using br by (simp add: readline_def)
      from "1.IH" [OF rl [symmetric] False Some]
      have "snd (snd (for_lines (f\<lparr>unread := r\<rparr>) (logger_info (rstrip s) [] w))) =
            (logger_info (rstrip s) [] w)\<lparr>log := log (logger_info (rstrip s) [] w) @ logged (split_lines r)\<rparr>"
        by simp
      with rl False Some sl show ?thesis
        by (simp add: for_lines.simps [of f w] logged_def decodable_def logged_text_def logger_info_def)
    qed
  qed
qed

lemma for_lines_result:
  "fst (for_lines f w) =
     (case find (\<lambda>l. \<not> decodable l) (split_lines (unread f)) of
        None \<Rightarrow> Inr ()
      | Some l \<Rightarrow> Inl (UnicodeDecodeError l))"
proof (induction f w rule: for_lines.induct)
  case (1 f w)
  obtain l r where br: "break_line (unread f) = (l, r)"
    by (cases "break_line (unread f)")
  show ?case
  proof (cases "l = []")
    case True
    with br have "unread f = []"
      by (simp add: break_line_Nil)
    with br True show ?thesis
      by (simp add: for_lines.simps [of f w] readline_def)
  next
    case False
    with br have ne: "unread f \<noteq> []"
      by auto
    from split_lines_break [OF ne] br
    have sl: "split_lines (unread f) = l # split_lines r"
      by simp
    show ?thesis
    proof (cases "decode l")
      case None
      with br False sl show ?thesis
        by (simp add: for_lines.simps [of f w] readline_def decodable_def)
    next
      case (Some s)
      have rl: "readline f = (l, f\<lparr>unread := r\<rparr>)"
        using br by (simp add: readline_def)
      from "1.IH" [OF rl [symmetric] False Some] rl False Some sl show ?thesis
        by (simp add: for_lines.simps [of f w] decodable_def)
    qed
  qed
qed

lemma for_lines_file:
  "fst (for_lines f w) = Inr u \<Longrightarrow> fst (snd (for_lines f w)) = f\<lparr>unread := []\<rparr>"
proof (induction f w rule: for_lines.induct)
  case (1 f w)
  obtain l r where br: "break_line (unread f) = (l, r)"
    by (cases "break_line (unread f)")
  show ?case
  proof (cases "l = []")
    case True
    with br have "unread f = []"
      by (simp add: break_line_Nil)
    with br True show ?thesis
      by (simp add: for_lines.simps [of f w] readline_def)
  next
    case False
    have rl: "readline f = (l, f\<lparr>unread := r\<rparr>)"
      using br by (simp add: readline_def)
    show ?thesis
    proof (cases "decode l")
      case None
      with rl False "1.prems" show ?thesis
        by (simp add: for_lines.simps [of f w])
    next
      case (Some s)
      from "1.prems" rl False Some
      have "fst (for_lines (f\<lparr>unread := r\<rparr>) (logger_info (rstrip s) [] w)) = Inr u"
        by (simp add: for_lines.simps [of f w])
      from "1.IH" [OF rl [symmetric] False Some this] rl False Some show ?thesis
        by (simp add: for_lines.simps [of f w])
    qed
  qed
qed

lemma for_lines_eq:
  "for_lines f w =
     (case find (\<lambda>l. \<not> decodable l) (split_lines (unread f)) of
        None \<Rightarrow> Inr ()
      | Some l \<Rightarrow> Inl (UnicodeDecodeError l),
      fst (snd (for_lines f w)),
      w\<lparr>log := log w @ logged (split_lines (unread f))\<rparr>)"
  by (metis for_lines_result for_lines_world prod.collapse)

lemma run_prologue:
  "Popen sys (lit ''./gradlew'' # a) wd (Obj (next_obj w))
     (logger_info (fst (command_line_log a wd)) (snd (command_line_log a wd))
       (setitem (Obj (next_obj w)) (lit ''ADB_INSTALL_TIMEOUT'') ADB_INSTALL_TIMEOUT
         (if g \<noteq> [] then setitem (Obj (next_obj w)) (lit ''GRADLE_OPTS'') g (snd (dict_copy OsEnviron w))
          else snd (dict_copy OsEnviron w)))) =
   (case sys (run_launch a g wd w) of
      Inl errno \<Rightarrow> Inl errno
    | Inr c \<Rightarrow> Inr \<lparr>args = lit ''./gradlew'' # a, returncode = None,
                     stdout = \<lparr>unread = c_output c, closed = False\<rparr>, stderr = None,
                     exit_status = c_status c\<rparr>,
    before_loop a g wd w)"
proof (cases "g = []")
  case True
  then show ?thesis
    by (cases "sys (run_launch a g wd w)"; cases wd)
      (simp_all add: Popen_def logger_info_def setitem_def dict_copy_def deref_def
        run_launch_def before_loop_def child_env_def Let_def)
next
  case False
  then show ?thesis
    by (cases "sys (run_launch a g wd w)"; cases wd)
      (simp_all add: Popen_def logger_info_def setitem_def dict_copy_def deref_def
        run_launch_def before_loop_def child_env_def Let_def)
qed

lemma run_eq:
  "run sys a g wd c w =
     (case sys (run_launch a g wd w) of
        Inl errno \<Rightarrow> (Inl (OSError errno), before_loop a g wd w)
      | Inr ch \<Rightarrow>
          (case find (\<lambda>l. \<not> decodable l) (split_lines (c_output ch)) of
             Some l \<Rightarrow> Inl (UnicodeDecodeError l)
           | None \<Rightarrow>
               if c \<and> c_status ch \<noteq> 0
               then Inl (CalledProcessError (Some (c_status ch)) (lit ''./gradlew'' # a)
                          \<lparr>unread = [], closed = True\<rparr> None)
               else Inr \<lparr>cp_args = lit ''./gradlew'' # a, cp_returncode = Some (c_status ch),
                         cp_stdout = \<lparr>unread = [], closed = True\<rparr>, cp_stderr = None\<rparr>,
           (before_loop a g wd w)
             \<lparr>log := log (before_loop a g wd w) @ logged (split_lines (c_output ch))\<rparr>))"
proof -
  have unf: "run sys a g wd c w =
     (case Popen sys (lit ''./gradlew'' # a) wd (Obj (next_obj w))
        (logger_info (fst (command_line_log a wd)) (snd (command_line_log a wd))
          (setitem (Obj (next_obj w)) (lit ''ADB_INSTALL_TIMEOUT'') ADB_INSTALL_TIMEOUT
            (if g \<noteq> [] then setitem (Obj (next_obj w)) (lit ''GRADLE_OPTS'') g (snd (dict_copy OsEnviron w))
             else snd (dict_copy OsEnviron w)))) of
        (Inl errno, w5) \<Rightarrow> (Inl (OSError errno), w5)
      | (Inr p, w5) \<Rightarrow>
          (case for_lines (stdout p) w5 of
             (Inl e, f', w6) \<Rightarrow> (Inl e, w6)
           | (Inr u, f', w6) \<Rightarrow>
               (let p1 = p\<lparr>stdout := f'\<rparr>;
                    p2 = snd (communicate p1)
                in if c \<and> truthy (returncode p2)
                   then (Inl (CalledProcessError (returncode p2) (args p2)
                                (stdout p2) (stderr p2)), w6)
                   else (Inr \<lparr>cp_args = args p2, cp_returncode = returncode p2,
                               cp_stdout = stdout p2, cp_stderr = stderr p2\<rparr>, w6))))"
    by (simp only: run_def Let_def dict_copy_def prod.case snd_conv fst_conv command_line_log_def append.simps)
  show ?thesis
  proof (cases "sys (run_launch a g wd w)")
    case (Inl errno)
    then show ?thesis
      unfolding unf run_prologue by simp
  next
    case (Inr ch)
    show ?thesis
    proof (cases "find (\<lambda>l. \<not> decodable l) (split_lines (c_output ch))")
      case None
      with Inr show ?thesis
        unfolding unf run_prologue
        by (subst for_lines_eq) (simp add: communicate_def truthy_def Let_def)
    next
      case (Some l)
      with Inr show ?thesis
        unfolding unf run_prologue
        by (subst for_lines_eq) simp
    qed
  qed
qed

lemma run_launches:
  "launches (snd (run sys a g wd c w)) = launches w @ [run_launch a g wd w]"
  by (simp add: run_eq before_loop_def split: sum.splits option.splits)

lemma run_last_launch:
  "last (launches (snd (run sys a g wd c w))) = run_launch a g wd w"
  by (simp add: run_launches)

lemma run_log:
  "log (snd (run sys a g wd c w)) =
     log w @ [command_line_log a wd] @
     (case sys (run_launch a g wd w) of
        Inl errno \<Rightarrow> []
      | Inr ch \<Rightarrow> logged (split_lines (c_output ch)))"
  by (simp add: run_eq before_loop_def split: sum.splits option.splits)

lemma run_os_environ:
  "os_environ (snd (run sys a g wd c w)) = os_environ w"
  by (simp add: run_eq before_loop_def split: sum.splits option.splits)

lemma run_objs:
  "objs (snd (run sys a g wd c w)) =
     (objs w)(next_obj w := child_env g (os_environ w))"
  by (simp add: run_eq before_loop_def split: sum.splits option.splits)

lemma find_None_decodable:
  "find (\<lambda>l. \<not> decodable l) ls = None \<longleftrightarrow> (\<forall>l \<in> set ls. decode l \<noteq> None)"
  by (auto simp add: find_None_iff decodable_def)

lemma run_result_ok:
  assumes "sys (run_launch a g wd w) = Inr ch"
    and "\<forall>l \<in> set (split_lines (c_output ch)). decode l \<noteq> None"
  shows "fst (run sys a g wd c w) =
     (if c \<and> c_status ch \<noteq> 0
      then Inl (CalledProcessError (Some (c_status ch)) (lit ''./gradlew'' # a)
                 \<lparr>unread = [], closed = True\<rparr> None)
      else Inr \<lparr>cp_args = lit ''./gradlew'' # a, cp_returncode = Some (c_status ch),
                cp_stdout = \<lparr>unread = [], closed = True\<rparr>, cp_stderr = None\<rparr>)"
proof -
  from assms(2) have "find (\<lambda>l. \<not> decodable l) (split_lines (c_output ch)) = None"
    by (simp only: find_None_decodable)
  with assms(1) show ?thesis
    by (simp add: run_eq)
qed



lemma rstrip_spec:
  "\<exists>ws. s = rstrip s @ ws \<and> (\<forall>c \<in> set ws. isspace c) \<and>
        (rstrip s = [] \<or> \<not> isspace (last (rstrip s)))"
proof -
  let ?r = "rev s"
  have split: "?r = takeWhile isspace ?r @ dropWhile isspace ?r"
    by simp
  have "s = rstrip s @ rev (takeWhile isspace ?r)"
  proof -
    have "rev ?r = rev (dropWhile isspace ?r) @ rev (takeWhile isspace ?r)"
      by (metis rev_append split)
    then show ?thesis
      by (simp add: rstrip_def)
  qed
  moreover have "\<forall>c \<in> set (rev (takeWhile isspace ?r)). isspace c"
    by (auto dest: set_takeWhileD)
  moreover have "rstrip s = [] \<or> \<not> isspace (last (rstrip s))"
  proof (cases "dropWhile isspace ?r")
    case Nil
    then show ?thesis by (simp add: rstrip_def)
  next
    case (Cons x xs)
    then have "\<not> isspace x"
      by (metis hd_dropWhile list.sel(1) list.distinct(1))
    with Cons show ?thesis
      by (simp add: rstrip_def)
  qed
  ultimately show ?thesis
    by blast
qed

lemma ex_lines:
  "split_lines (c_output ok_child) = [[0x6F, 0x6B, 0x20, 0x0A], [0x62]]"
  "split_lines (c_output failing_child) = [[0x6E, 0x6F, 0x0A]]"
  "split_lines (c_output latin1_child) = [[0xFF]]"
  by (simp_all add: ok_child_def failing_child_def latin1_child_def)

lemma ex_decode:
  "decode [0x6F, 0x6B, 0x20, 0x0A] = Some [0x6F, 0x6B, 0x20, 0x0A]"
  "decode [0x62] = Some [0x62]"
  "decode [0x6E, 0x6F, 0x0A] = Some [0x6E, 0x6F, 0x0A]"
  "decode [0xFF] = None"
  by simp_all

lemma answers_launched [simp]: "answers c l = Inr c"
  by (simp add: answers_def)

lemma logged_eq:
  "logged ls =
     map (\<lambda>l. (case decode l of None \<Rightarrow> [] | Some s \<Rightarrow> rstrip s, []))
       (takeWhile (\<lambda>l. decode l \<noteq> None) ls)"
  unfolding logged_def logged_text_def decodable_def [abs_def] by (rule refl)

section \<open>The claims\<close>




text \<open>
  The result does not hold the output: a child that prints two lines and one that prints
  nothing give the same result.
\<close>

theorem run_result_fields_counterexample:
  "c_output ok_child \<noteq> c_output quiet_child \<and>
   fst (run (answers ok_child) [] [] None True ex_world) =
     Inr \<lparr>cp_args = [lit ''./gradlew''], cp_returncode = Some 0,
          cp_stdout = \<lparr>unread = [], closed = True\<rparr>, cp_stderr = None\<rparr> \<and>
   fst (run (answers quiet_child) [] [] None True ex_world) =
     fst (run (answers ok_child) [] [] None True ex_world)"
proof -
  have a: "\<forall>l \<in> set (split_lines (c_output ok_child)). decode l \<noteq> None"
    by (simp add: ex_lines)
  have b: "\<forall>l \<in> set (split_lines (c_output quiet_child)). decode l \<noteq> None"
    by (simp add: quiet_child_def)
  have "fst (run (answers ok_child) [] [] None True ex_world) =
     Inr \<lparr>cp_args = [lit ''./gradlew''], cp_returncode = Some 0,
          cp_stdout = \<lparr>unread = [], closed = True\<rparr>, cp_stderr = None\<rparr>"
    using run_result_ok [of "answers ok_child" "[]" "[]" None ex_world ok_child True] a
    by (simp add: ok_child_def)
  moreover have "fst (run (answers quiet_child) [] [] None True ex_world) =
     Inr \<lparr>cp_args = [lit ''./gradlew''], cp_returncode = Some 0,
          cp_stdout = \<lparr>unread = [], closed = True\<rparr>, cp_stderr = None\<rparr>"
    using run_result_ok [of "answers quiet_child" "[]" "[]" None ex_world quiet_child True] b
    by (simp add: quiet_child_def)
  moreover have "c_output ok_child \<noteq> c_output quiet_child"
    by (simp add: ok_child_def quiet_child_def)
  ultimately show ?thesis
    by simp
qed

text \<open>
  Claim C2, as amended. When the child was launched and every line decodes, the raised
  \<^verbatim>\<open>CalledProcessError\<close> and the returned \<^verbatim>\<open>CompletedProcess\<close> hold the exit code, the
  argument vector \<^verbatim>\<open>['./gradlew'] + args\<close>, \<^verbatim>\<open>p.stdout\<close> and \<^verbatim>\<open>p.stderr\<close>. The latter
  two are the file object of the pipe, read to its end and closed, and \<^verbatim>\<open>None\<close>: the
  bytes the child wrote are in the log only.
\<close>

theorem run_result_fields:
  assumes "sys (last (launches (snd (run sys arguments gradle_opts workdir check w)))) = Inr ch"
    and "\<forall>l \<in> set (split_lines (c_output ch)). decode l \<noteq> None"
  shows "fst (run sys arguments gradle_opts workdir check w) =
     (if check \<and> c_status ch \<noteq> 0
      then Inl (CalledProcessError (Some (c_status ch)) (lit ''./gradlew'' # arguments)
                 \<lparr>unread = [], closed = True\<rparr> None)
      else Inr \<lparr>cp_args = lit ''./gradlew'' # arguments, cp_returncode = Some (c_status ch),
                cp_stdout = \<lparr>unread = [], closed = True\<rparr>, cp_stderr = None\<rparr>)"
  using assms unfolding run_last_launch by (rule run_result_ok)

theorem run_result_fields_witness:
  "fst (run (answers failing_child) [lit ''build''] [] None True ex_world) =
     Inl (CalledProcessError (Some 1) [lit ''./gradlew'', lit ''build'']
           \<lparr>unread = [], closed = True\<rparr> None)"
proof -
  have ok: "\<forall>l \<in> set (split_lines (c_output failing_child)). decode l \<noteq> None"
    by (simp add: ex_lines)
  have st: "c_status failing_child = 1"
    by (simp add: failing_child_def)
  have "answers failing_child
          (last (launches (snd (run (answers failing_child) [lit ''build''] [] None True ex_world)))) =
        Inr failing_child"
    by simp
  from run_result_fields [of "answers failing_child" "[lit ''build'']" "[]" None True ex_world
      failing_child, OF this ok] st
  show ?thesis
    by simp
qed

text \<open>
  Claim C3. \<open>run\<close> calls \<^verbatim>\<open>Popen\<close> once, and in the environment it passes
  \<^verbatim>\<open>GRADLE_OPTS\<close> is what \<^verbatim>\<open>os.environ\<close> holds for it (nothing, when there is nothing)
  if \<open>gradle_opts\<close> is empty, and \<open>gradle_opts\<close> otherwise.
\<close>

theorem run_gradle_opts:
  "\<exists>l. launches (snd (run sys arguments gradle_opts workdir check w)) = launches w @ [l] \<and>
       pc_env (l_call l) (lit ''GRADLE_OPTS'') =
         (if gradle_opts = [] then os_environ w (lit ''GRADLE_OPTS'') else Some gradle_opts)"
  by (simp add: run_launches run_launch_def child_env_def lit_def)

theorem run_gradle_opts_witness:
  "(\<exists>l. launches (snd (run (answers ok_child) [] [] None True ex_world)) = [l] \<and>
        pc_env (l_call l) (lit ''GRADLE_OPTS'') = Some (lit ''-Xmx2g'')) \<and>
   (\<exists>l. launches (snd (run (answers ok_child) [] (lit ''-Xmx1g'') None True ex_world)) = [l] \<and>
        pc_env (l_call l) (lit ''GRADLE_OPTS'') = Some (lit ''-Xmx1g''))"
  using run_gradle_opts [of "answers ok_child" "[]" "[]" None True ex_world]
    run_gradle_opts [of "answers ok_child" "[]" "lit ''-Xmx1g''" None True ex_world]
  by (simp add: ex_world_def lit_def)

text \<open>
  Claim C4. Whatever the arguments and the parent's environment, the environment passed
  to \<^verbatim>\<open>Popen\<close> maps \<^verbatim>\<open>ADB_INSTALL_TIMEOUT\<close> to \<^verbatim>\<open>"5"\<close>.
\<close>

theorem run_adb_install_timeout:
  "\<exists>l. launches (snd (run sys arguments gradle_opts workdir check w)) = launches w @ [l] \<and>
       pc_env (l_call l) (lit ''ADB_INSTALL_TIMEOUT'') = Some (lit ''5'')"
  by (simp add: run_launches run_launch_def child_env_def ADB_INSTALL_TIMEOUT_def)

theorem run_adb_install_timeout_witness:
  "\<exists>l. launches (snd (run (answers ok_child) [] (lit ''-Xmx1g'') (Some (lit ''sub'')) False ex_world)) = [l] \<and>
       pc_env (l_call l) (lit ''ADB_INSTALL_TIMEOUT'') = Some (lit ''5'')"
  using run_adb_install_timeout [of "answers ok_child" "[]" "lit ''-Xmx1g''" "Some (lit ''sub'')" False ex_world]
  by (simp add: ex_world_def)

text \<open>
  Claim C5. The command passed to \<^verbatim>\<open>Popen\<close> is \<^verbatim>\<open>'./gradlew'\<close> followed by the
  arguments, in their order.
\<close>

theorem run_command_vector:
  "\<exists>l. launches (snd (run sys arguments gradle_opts workdir check w)) = launches w @ [l] \<and>
       pc_args (l_call l) = lit ''./gradlew'' # arguments"
  by (simp add: run_launches run_launch_def)

theorem run_command_vector_witness:
  "\<exists>l. launches (snd (run (answers ok_child) [lit ''assembleDebug''] [] None True ex_world)) = [l] \<and>
       pc_args (l_call l) = [lit ''./gradlew'', lit ''assembleDebug'']"
  using run_command_vector [of "answers ok_child" "[lit ''assembleDebug'']" "[]" None True ex_world]
  by (simp add: ex_world_def)

text \<open>
  Claim C6. For all strings \<open>name\<close> and \<open>val\<close>, \<open>P\<close> returns \<^verbatim>\<open>-P\<close>, the name,
  \<^verbatim>\<open>=\<close> and the value, with nothing between or around them, and never an error.
\<close>

theorem P_token:
  "P name val = Inr (lit ''-P'' @ name @ lit ''='' @ val)"
  by (simp add: P_def lit_def)

theorem P_token_witness:
  "P (lit ''sdk'') (lit ''31'') = Inr (lit ''-Psdk=31'')"
  using P_token [of "lit ''sdk''" "lit ''31''"] by (simp add: lit_def)

text \<open>
  Claim C8. \<open>workdir\<close> is passed to \<^verbatim>\<open>Popen\<close> as \<^verbatim>\<open>cwd\<close> as it is; with \<^verbatim>\<open>None\<close>
  the child stays in the directory of the parent, otherwise it changes to \<open>workdir\<close>.
\<close>

theorem run_workdir:
  "\<exists>l. launches (snd (run sys arguments gradle_opts workdir check w)) = launches w @ [l] \<and>
       pc_cwd (l_call l) = workdir \<and>
       l_dir l = (case workdir of None \<Rightarrow> ParentCwd (cwd w) | Some d \<Rightarrow> ChdirTo d)"
  by (simp add: run_launches run_launch_def)

theorem run_workdir_witness:
  "(\<exists>l. launches (snd (run (answers ok_child) [] [] None True ex_world)) = [l] \<and>
        pc_cwd (l_call l) = None \<and> l_dir l = ParentCwd (lit ''/repo'')) \<and>
   (\<exists>l. launches (snd (run (answers ok_child) [] [] (Some (lit ''sub'')) True ex_world)) = [l] \<and>
        pc_cwd (l_call l) = Some (lit ''sub'') \<and> l_dir l = ChdirTo (lit ''sub''))"
  using run_workdir [of "answers ok_child" "[]" "[]" None True ex_world]
    run_workdir [of "answers ok_child" "[]" "[]" "Some (lit ''sub'')" True ex_world]
  by (simp add: ex_world_def)

text \<open>
  Claim C9. \<open>run\<close> leaves \<^verbatim>\<open>os.environ\<close> and every dictionary that existed before
  the call as they were: it writes only to the copy it made. Every variable other than
  \<^verbatim>\<open>GRADLE_OPTS\<close> and \<^verbatim>\<open>ADB_INSTALL_TIMEOUT\<close> has in the child's environment the value
  it has in the parent's.
\<close>

theorem run_environment_frame:
  "os_environ (snd (run sys arguments gradle_opts workdir check w)) = os_environ w \<and>
   (\<forall>i. i < next_obj w \<longrightarrow>
      objs (snd (run sys arguments gradle_opts workdir check w)) i = objs w i) \<and>
   (\<exists>l. launches (snd (run sys arguments gradle_opts workdir check w)) = launches w @ [l] \<and>
        (\<forall>k. k \<noteq> lit ''GRADLE_OPTS'' \<and> k \<noteq> lit ''ADB_INSTALL_TIMEOUT'' \<longrightarrow>
           pc_env (l_call l) k = os_environ w k))"
  by (simp add: run_os_environ run_objs run_launches run_launch_def child_env_def)

theorem run_environment_frame_witness:
  "os_environ (snd (run (answers ok_child) [] (lit ''-Xmx1g'') None True ex_world)) =
     os_environ ex_world \<and>
   objs (snd (run (answers ok_child) [] (lit ''-Xmx1g'') None True ex_world)) 0 =
     objs ex_world 0 \<and>
   (\<exists>l. launches (snd (run (answers ok_child) [] (lit ''-Xmx1g'') None True ex_world)) = [l] \<and>
        pc_env (l_call l) (lit ''HOME'') = Some (lit ''/root''))"
proof -
  have keys: "lit ''HOME'' \<noteq> lit ''GRADLE_OPTS''" "lit ''HOME'' \<noteq> lit ''ADB_INSTALL_TIMEOUT''"
    by (simp_all add: lit_def)
  have home: "os_environ ex_world (lit ''HOME'') = Some (lit ''/root'')"
    by (simp add: ex_world_def lit_def)
  have empty: "launches ex_world = []" and older: "0 < next_obj ex_world"
    by (simp_all add: ex_world_def)
  from run_environment_frame [of "answers ok_child" "[]" "lit ''-Xmx1g''" None True ex_world]
  show ?thesis
    using keys home empty older by auto
qed

text \<open>
  Claim C10. When the child was launched, \<open>run\<close> appends to the log the line that
  announces the command and then, for the lines of the child's output up to the first one
  that fails to decode, in their order, the decoded line without its trailing whitespace,
  with no further argument. \<open>rstrip\<close> removes exactly the longest suffix of whitespace
  characters, and the newline is one of them.
\<close>

theorem run_logged_lines:
  assumes "sys (last (launches (snd (run sys arguments gradle_opts workdir check w)))) = Inr ch"
  shows "(\<exists>cmd. log (snd (run sys arguments gradle_opts workdir check w)) =
            log w @ [cmd] @
            map (\<lambda>l. (case decode l of None \<Rightarrow> [] | Some s \<Rightarrow> rstrip s, []))
              (takeWhile (\<lambda>l. decode l \<noteq> None) (split_lines (c_output ch)))) \<and>
         (\<forall>s. \<exists>ws. s = rstrip s @ ws \<and> (\<forall>c \<in> set ws. isspace c) \<and>
                 (rstrip s = [] \<or> \<not> isspace (last (rstrip s)))) \<and>
         isspace 0x0A"
proof -
  from assms have "sys (run_launch arguments gradle_opts workdir w) = Inr ch"
    by (simp only: run_last_launch)
  then have "log (snd (run sys arguments gradle_opts workdir check w)) =
      log w @ [command_line_log arguments workdir] @ logged (split_lines (c_output ch))"
    by (simp add: run_log)
  then have "log (snd (run sys arguments gradle_opts workdir check w)) =
      log w @ [command_line_log arguments workdir] @
      map (\<lambda>l. (case decode l of None \<Rightarrow> [] | Some s \<Rightarrow> rstrip s, []))
        (takeWhile (\<lambda>l. decode l \<noteq> None) (split_lines (c_output ch)))"
    by (simp only: logged_eq)
  moreover have "isspace 0x0A"
    by (simp add: isspace_def)
  ultimately show ?thesis
    using rstrip_spec by blast
qed

theorem run_logged_lines_witness:
  "\<exists>cmd. log (snd (run (answers ok_child) [] [] None True ex_world)) =
     [cmd, (lit ''ok'', []), (lit ''b'', [])]"
proof -
  have "answers ok_child
          (last (launches (snd (run (answers ok_child) [] [] None True ex_world)))) =
        Inr ok_child"
    by simp
  from run_logged_lines [of "answers ok_child" "[]" "[]" None True ex_world ok_child, OF this]
  have "\<exists>cmd. log (snd (run (answers ok_child) [] [] None True ex_world)) =
            log ex_world @ [cmd] @
            map (\<lambda>l. (case decode l of None \<Rightarrow> [] | Some s \<Rightarrow> rstrip s, []))
              (takeWhile (\<lambda>l. decode l \<noteq> None) (split_lines (c_output ok_child)))"
    by blast
  then show ?thesis
    by (simp add: ex_lines ex_world_def rstrip_def isspace_def lit_def)
qed

end
